theory Spec2Isabelle
  imports Complex_Main
begin

section \<open>Teapots and turntables: the two-phase simulation of chap25.ipynb\<close>

text \<open>
  The notebook simulates a turntable that is pushed with a constant force until it has
  turned by \<open>theta_end\<close> (phase 1) and then glides under friction until it stops
  (phase 2). The functions embedded here are \<open>make_system\<close>, \<open>slope_func\<close>,
  \<open>event_func1\<close>, \<open>event_func2\<close>, \<open>run_two_phases\<close> and \<open>error_func1\<close>.

  Conventions of the embedding:
  \<^item> a Pint quantity is its magnitude, a Python float is a \<open>real\<close>: unit tags and
    rounding are not part of the model, and there is no NaN, so no cell of a frame is null;
  \<^item> a \<open>Params\<close>, \<open>State\<close> or \<open>System\<close> object is a record; \<open>System\<close> copies every
    field of the object it is built from, so it is the extension of \<open>Params\<close>;
  \<^item> a \<open>TimeFrame\<close> is the list of its rows in index order, each row paired with its
    time label;
  \<^item> an exception is a value \<open>Inl e\<close> of a sum type;
  \<^item> \<open>run_ode_solver\<close> is a library function (modsim.py on top of SciPy) and is a
    parameter of everything that calls it.
\<close>

subsection \<open>Data\<close>

record Params =
  radius_disk :: real
  mass_disk :: real
  radius_pot :: real
  mass_pot :: real
  force :: real
  torque_friction :: real
  theta_end :: real
  t_end :: real

record State =
  theta :: real
  omega :: real

text \<open>
  \<open>System(params, init=init, I=...)\<close> holds the fields of \<open>params\<close> and the two new
  ones. Only the phase-2 system has a start time \<open>t_0\<close>; the solver reads it with
  \<open>getattr(system, 't_0', 0)\<close>, so an absent attribute is \<open>None\<close>.
\<close>

record System = Params +
  init :: State
  I :: real
  t_0 :: "real option"

type_synonym TimeFrame = "(real \<times> State) list"

datatype error = ZeroDivisionError | IndexError | SolverError

text \<open>
  Of the details the solver returns beside the results, the model keeps why the
  integration stopped: at the horizon \<open>t_end\<close>, or at a zero of the event function.
\<close>

datatype Details = HorizonReached | EventFired

type_synonym slope = "State \<Rightarrow> real \<Rightarrow> System \<Rightarrow> error + real \<times> real"
type_synonym event = "State \<Rightarrow> real \<Rightarrow> System \<Rightarrow> real"
type_synonym ode_solver = "System \<Rightarrow> slope \<Rightarrow> event \<Rightarrow> error + TimeFrame \<times> Details"

subsection \<open>The system and its dynamics\<close>

text \<open>
  \<^verbatim>\<open>
  def make_system(params):
      mass_disk, mass_pot = params.mass_disk, params.mass_pot
      radius_disk, radius_pot = params.radius_disk, params.radius_pot
      init = State(theta=0*radian, omega=0*radian/s)
      I_disk = mass_disk * radius_disk**2 / 2
      I_pot = mass_pot * radius_pot**2
      return System(params, init=init, I=I_disk+I_pot)
  \<close>
\<close>

definition make_system :: "Params \<Rightarrow> System" where
  "make_system params =
     (let I_disk = mass_disk params * (radius_disk params)\<^sup>2 / 2;
          I_pot = mass_pot params * (radius_pot params)\<^sup>2
      in \<lparr>radius_disk = radius_disk params, mass_disk = mass_disk params,
          radius_pot = radius_pot params, mass_pot = mass_pot params,
          force = force params, torque_friction = torque_friction params,
          theta_end = theta_end params, t_end = t_end params,
          init = \<lparr>theta = 0, omega = 0\<rparr>, I = I_disk + I_pot, t_0 = None\<rparr>)"

text \<open>
  \<^verbatim>\<open>
  def slope_func(state, t, system):
      theta, omega = state
      radius_disk, force = system.radius_disk, system.force
      torque_friction, I = system.torque_friction, system.I
      torque = radius_disk * force - torque_friction
      alpha = torque / I
      return omega, alpha
  \<close>
  The division raises \<open>ZeroDivisionError\<close> when \<open>I\<close> is zero.
\<close>

definition slope_func :: slope where
  "slope_func state t system =
     (let torque = radius_disk system * force system - torque_friction system
      in if I system = 0 then Inl ZeroDivisionError
         else Inr (omega state, torque / I system))"

text \<open>
  \<^verbatim>\<open>
  def event_func1(state, t, system):
      theta, omega = state
      return theta - system.theta_end

  def event_func2(state, t, system):
      theta, omega = state
      return omega
  \<close>
\<close>

definition event_func1 :: event where
  "event_func1 state t system = theta state - theta_end system"

definition event_func2 :: event where
  "event_func2 state t system = omega state"

subsection \<open>Frames\<close>

text \<open>
  \<open>results.last_label()\<close> is \<open>results.index[-1]\<close> and \<open>results.last_row()\<close> is the row
  at that position; both raise \<open>IndexError\<close> on a frame without rows.
\<close>

definition last_label :: "TimeFrame \<Rightarrow> error + real" where
  "last_label results = (if results = [] then Inl IndexError else Inr (fst (last results)))"

definition last_row :: "TimeFrame \<Rightarrow> error + State" where
  "last_row results = (if results = [] then Inl IndexError else Inr (snd (last results)))"

text \<open>
  \<open>a.combine_first(b)\<close> is a method of pandas: it updates the null cells of \<open>a\<close> with
  the cells of \<open>b\<close> at the same place, and the index of the result is the union of the
  two indexes, in increasing order. No cell is null here, so every row of the
  receiver \<open>a\<close> is kept, and the argument \<open>b\<close> supplies the rows whose labels \<open>a\<close>
  does not have. The labels within a frame are the times of a trajectory and are
  taken to be distinct.
\<close>

definition combine_first :: "TimeFrame \<Rightarrow> TimeFrame \<Rightarrow> TimeFrame" where
  "combine_first a b =
     sort_key fst (a @ filter (\<lambda>r. fst r \<notin> set (map fst a)) b)"

subsection \<open>The two-phase driver\<close>

text \<open>
  \<^verbatim>\<open>
  def run_two_phases(force, torque_friction, params):
      # put the specified parameters into the Params object
      params = Params(params, force=force, torque_friction=torque_friction)
      # run phase 1
      system1 = make_system(params)
      results1, details1 = run_ode_solver(system1, slope_func, events=event_func1)
      # get the final state from phase 1
      t_0 = results1.last_label() * s
      init2 = results1.last_row()
      # run phase 2
      system2 = System(system1, t_0=t_0, init=init2, force=0*N)
      results2, details2 = run_ode_solver(system2, slope_func, events=event_func2)
      # combine and return the results
      results = results1.combine_first(results2)
      return TimeFrame(results)
  \<close>
  \<open>Locals\<close> is the function's frame at its \<open>return\<close>: one field for each local
  variable. \<open>run_two_phases_locals\<close> is the body; \<open>run_two_phases\<close> returns the
  variable \<open>results\<close>.
\<close>

record Locals =
  loc_params :: Params
  loc_system1 :: System
  loc_results1 :: TimeFrame
  loc_details1 :: Details
  loc_t_0 :: real
  loc_init2 :: State
  loc_system2 :: System
  loc_results2 :: TimeFrame
  loc_details2 :: Details
  loc_results :: TimeFrame

definition run_two_phases_locals ::
  "ode_solver \<Rightarrow> real \<Rightarrow> real \<Rightarrow> Params \<Rightarrow> error + Locals" where
  "run_two_phases_locals run_ode_solver force' torque_friction' params =
     (let params = params\<lparr>force := force', torque_friction := torque_friction'\<rparr>;
          system1 = make_system params
      in case run_ode_solver system1 slope_func event_func1 of
           Inl e \<Rightarrow> Inl e
         | Inr (results1, details1) \<Rightarrow>
            (case last_label results1 of
               Inl e \<Rightarrow> Inl e
             | Inr t_0' \<Rightarrow>
                (case last_row results1 of
                   Inl e \<Rightarrow> Inl e
                 | Inr init2 \<Rightarrow>
                    (let system2 = system1\<lparr>t_0 := Some t_0', init := init2, force := 0\<rparr>
                     in case run_ode_solver system2 slope_func event_func2 of
                          Inl e \<Rightarrow> Inl e
                        | Inr (results2, details2) \<Rightarrow>
                            Inr \<lparr>loc_params = params, loc_system1 = system1,
                                 loc_results1 = results1, loc_details1 = details1,
                                 loc_t_0 = t_0', loc_init2 = init2,
                                 loc_system2 = system2,
                                 loc_results2 = results2, loc_details2 = details2,
                                 loc_results = combine_first results1 results2\<rparr>))))"

definition run_two_phases :: "ode_solver \<Rightarrow> real \<Rightarrow> real \<Rightarrow> Params \<Rightarrow> error + TimeFrame" where
  "run_two_phases run_ode_solver force' torque_friction' params =
     (case run_two_phases_locals run_ode_solver force' torque_friction' params of
        Inl e \<Rightarrow> Inl e
      | Inr locals \<Rightarrow> Inr (loc_results locals))"

subsection \<open>The calibration error\<close>

text \<open>
  \<^verbatim>\<open>
  def error_func1(torque_friction, params):
      force = 1 * N
      results = run_two_phases(force, torque_friction, params)
      theta_final = results.last_row().theta
      print(torque_friction, theta_final)
      return theta_final - 1.5 * radian
  \<close>
  The model returns the printed line beside the value.
\<close>

record Outcome =
  printed :: "real \<times> real"
  returned :: real

definition error_func1 :: "ode_solver \<Rightarrow> real \<Rightarrow> Params \<Rightarrow> error + Outcome" where
  "error_func1 run_ode_solver torque_friction' params =
     (let force' = 1
      in case run_two_phases run_ode_solver force' torque_friction' params of
           Inl e \<Rightarrow> Inl e
         | Inr results \<Rightarrow>
            (case last_row results of
               Inl e \<Rightarrow> Inl e
             | Inr r \<Rightarrow>
                (let theta_final = theta r
                 in Inr \<lparr>printed = (torque_friction', theta_final),
                         returned = theta_final - 3 / 2\<rparr>)))"

subsection \<open>An integrator to run the driver with\<close>

text \<open>
  Modelled from the spec: \<open>run_ode_solver\<close>, the ODE integrator with event termination,
  is not among the sources. The spec asks of it: start from the system's initial
  state at its start time (0 when it has none), integrate step-wise with the derivative
  function, stop at the horizon \<open>t_end\<close> unless the event function changes sign between
  two consecutive steps, and in that case locate the crossing by interpolation, make
  it the final sample and report that the event fired. \<open>euler_solver n\<close> does this
  with \<open>n\<close> explicit Euler steps of equal length and linear interpolation. The theorems
  below hold for every integrator; this one supplies the concrete runs.
\<close>

fun euler_steps ::
  "nat \<Rightarrow> real \<Rightarrow> slope \<Rightarrow> event \<Rightarrow> System \<Rightarrow> real \<Rightarrow> State \<Rightarrow> error + TimeFrame \<times> Details" where
  "euler_steps 0 h f g system t y = Inr ([(t, y)], HorizonReached)"
| "euler_steps (Suc n) h f g system t y =
     (case f y t system of
        Inl e \<Rightarrow> Inl e
      | Inr (dtheta, domega) \<Rightarrow>
         (let y' = \<lparr>theta = theta y + h * dtheta, omega = omega y + h * domega\<rparr>;
              g0 = g y t system;
              g1 = g y' (t + h) system
          in if (g0 < 0 \<and> 0 \<le> g1) \<or> (0 < g0 \<and> g1 \<le> 0)
             then (let c = g0 / (g0 - g1)
                   in Inr ([(t, y),
                            (t + c * h, \<lparr>theta = theta y + c * h * dtheta,
                                          omega = omega y + c * h * domega\<rparr>)],
                           EventFired))
             else (case euler_steps n h f g system (t + h) y' of
                     Inl e \<Rightarrow> Inl e
                   | Inr (results, details) \<Rightarrow> Inr ((t, y) # results, details))))"

definition euler_solver :: "nat \<Rightarrow> ode_solver" where
  "euler_solver n system f g =
     (let t0 = (case t_0 system of None \<Rightarrow> 0 | Some t \<Rightarrow> t)
      in if n = 0 then Inl SolverError
         else if t_end system \<le> t0 then Inr ([(t0, init system)], HorizonReached)
         else euler_steps n ((t_end system - t0) / real n) f g system t0 (init system))"

text \<open>
  The configuration of the concrete runs: a disk of radius 1 and mass 2 carrying a
  pot of mass 1 at radius 1, to be turned by half a radian within 8 seconds.
\<close>

definition example_params :: Params where
  "example_params =
     \<lparr>radius_disk = 1, mass_disk = 2, radius_pot = 1, mass_pot = 1,
      force = 1, torque_friction = 1 / 5, theta_end = 1 / 2, t_end = 8\<rparr>"

definition example_results1 :: TimeFrame where
  "example_results1 =
     [(0, \<lparr>theta = 0, omega = 0\<rparr>),
      (2, \<lparr>theta = 0, omega = 1 / 2\<rparr>),
      (3, \<lparr>theta = 1 / 2, omega = 3 / 4\<rparr>)]"

definition example_results2 :: TimeFrame where
  "example_results2 =
     [(3, \<lparr>theta = 1 / 2, omega = 3 / 4\<rparr>),
      (17 / 4, \<lparr>theta = 23 / 16, omega = 7 / 16\<rparr>),
      (11 / 2, \<lparr>theta = 127 / 64, omega = 1 / 8\<rparr>),
      (6, \<lparr>theta = 131 / 64, omega = 0\<rparr>)]"

definition example_results :: TimeFrame where
  "example_results =
     [(0, \<lparr>theta = 0, omega = 0\<rparr>),
      (2, \<lparr>theta = 0, omega = 1 / 2\<rparr>),
      (3, \<lparr>theta = 1 / 2, omega = 3 / 4\<rparr>),
      (17 / 4, \<lparr>theta = 23 / 16, omega = 7 / 16\<rparr>),
      (11 / 2, \<lparr>theta = 127 / 64, omega = 1 / 8\<rparr>),
      (6, \<lparr>theta = 131 / 64, omega = 0\<rparr>)]"

text \<open>
  The frame of \<open>run_two_phases\<close> at its return, for a force of 1 and a friction torque
  of 1/2 on \<open>example_params\<close>, integrated in four steps per phase.
\<close>

definition example_locals :: Locals where
  "example_locals =
     \<lparr>loc_params = example_params\<lparr>force := 1, torque_friction := 1 / 2\<rparr>,
      loc_system1 = make_system (example_params\<lparr>force := 1, torque_friction := 1 / 2\<rparr>),
      loc_results1 = example_results1,
      loc_details1 = EventFired,
      loc_t_0 = 3,
      loc_init2 = \<lparr>theta = 1 / 2, omega = 3 / 4\<rparr>,
      loc_system2 =
        (make_system (example_params\<lparr>force := 1, torque_friction := 1 / 2\<rparr>))
          \<lparr>t_0 := Some 3, init := \<lparr>theta = 1 / 2, omega = 3 / 4\<rparr>, force := 0\<rparr>,
      loc_results2 = example_results2,
      loc_details2 = EventFired,
      loc_results = example_results\<rparr>"

text \<open>
  Two runs in which phase 1 never reaches \<open>theta_end\<close>: with a friction torque of 1
  the net torque of phase 1 is zero and the table stays where it is; with a friction
  torque of 2 the net torque is negative and the angle decreases.
\<close>

definition stalled_results :: TimeFrame where
  "stalled_results =
     [(0, \<lparr>theta = 0, omega = 0\<rparr>), (2, \<lparr>theta = 0, omega = 0\<rparr>),
      (4, \<lparr>theta = 0, omega = 0\<rparr>), (6, \<lparr>theta = 0, omega = 0\<rparr>),
      (8, \<lparr>theta = 0, omega = 0\<rparr>)]"

definition reversed_results :: TimeFrame where
  "reversed_results =
     [(0, \<lparr>theta = 0, omega = 0\<rparr>), (2, \<lparr>theta = 0, omega = - 1\<rparr>),
      (4, \<lparr>theta = - 2, omega = - 2\<rparr>), (6, \<lparr>theta = - 6, omega = - 3\<rparr>),
      (8, \<lparr>theta = - 12, omega = - 4\<rparr>)]"

subsection \<open>The module-level names of the notebook\<close>







subsection \<open>Predicates of the properties\<close>


text \<open>A frame is time-ordered when its labels increase strictly from row to row.\<close>

definition time_ordered :: "TimeFrame \<Rightarrow> bool" where
  "time_ordered results = sorted_wrt (<) (map fst results)"

text \<open>
  A trajectory starts with the initial condition of the system it was integrated for:
  its first row is the initial state, labelled with the start time.
\<close>

definition starts_with_initial_condition :: "System \<Rightarrow> TimeFrame \<Rightarrow> bool" where
  "starts_with_initial_condition system results \<longleftrightarrow>
     results \<noteq> []
     \<and> hd results = ((case t_0 system of None \<Rightarrow> 0 | Some t \<Rightarrow> t), init system)"

text \<open>
  The stored moment of inertia is the one of the system's own masses and radii.
\<close>

definition inertia_consistent :: "System \<Rightarrow> bool" where
  "inertia_consistent system \<longleftrightarrow>
     I system = mass_disk system * (radius_disk system)\<^sup>2 / 2
                + mass_pot system * (radius_pot system)\<^sup>2"

section \<open>Properties\<close>

subsection \<open>Frames and their combination\<close>






lemma time_ordered_hd_le:
  assumes "time_ordered b" and "x \<in> set b"
  shows "fst (hd b) \<le> fst x"
proof -
  have srt: "sorted (map fst b)"
    using assms(1) by (simp add: time_ordered_def strict_sorted_imp_sorted)
  from assms(2) obtain y ys where b: "b = y # ys"
    by (cases b) auto
  show ?thesis
    using srt assms(2) unfolding b by auto
qed



lemma combine_first_not_Nil: "a \<noteq> [] \<Longrightarrow> combine_first a b \<noteq> []"
proof
  assume "a \<noteq> []" and "combine_first a b = []"
  from this(2) have "set (combine_first a b) = {}"
    by simp
  then have "set a = {}"
    by (simp add: combine_first_def)
  with \<open>a \<noteq> []\<close> show False
    by simp
qed

subsection \<open>What a successful run leaves in the frame of the driver\<close>

lemma run_two_phases_locals_Inr:
  assumes "run_two_phases_locals solver force' torque_friction' params = Inr locals"
  shows "loc_params locals = params\<lparr>force := force', torque_friction := torque_friction'\<rparr>"
    and "loc_system1 locals = make_system (loc_params locals)"
    and "solver (loc_system1 locals) slope_func event_func1
           = Inr (loc_results1 locals, loc_details1 locals)"
    and "loc_results1 locals \<noteq> []"
    and "loc_t_0 locals = fst (last (loc_results1 locals))"
    and "loc_init2 locals = snd (last (loc_results1 locals))"
    and "loc_system2 locals =
           (loc_system1 locals)\<lparr>t_0 := Some (loc_t_0 locals), init := loc_init2 locals,
                                 force := 0\<rparr>"
    and "solver (loc_system2 locals) slope_func event_func2
           = Inr (loc_results2 locals, loc_details2 locals)"
    and "loc_results locals = combine_first (loc_results1 locals) (loc_results2 locals)"
  using assms
  by (auto simp: run_two_phases_locals_def Let_def last_label_def last_row_def
           split: sum.splits prod.splits if_splits)

subsection \<open>The concrete runs\<close>

lemma example_phase1:
  "euler_solver 4 (make_system (example_params\<lparr>force := 1, torque_friction := 1 / 2\<rparr>))
     slope_func event_func1 = Inr (example_results1, EventFired)"
  by (simp add: euler_solver_def make_system_def example_params_def slope_func_def
        event_func1_def eval_nat_numeral example_results1_def)

lemma example_phase2:
  "euler_solver 4
     ((make_system (example_params\<lparr>force := 1, torque_friction := 1 / 2\<rparr>))
        \<lparr>t_0 := Some 3, init := \<lparr>theta = 1 / 2, omega = 3 / 4\<rparr>, force := 0\<rparr>)
     slope_func event_func2 = Inr (example_results2, EventFired)"
  by (simp add: euler_solver_def make_system_def example_params_def slope_func_def
        event_func2_def eval_nat_numeral example_results2_def)

lemma example_combine:
  "combine_first example_results1 example_results2 = example_results"
  by (simp add: combine_first_def example_results1_def example_results2_def
        example_results_def)

lemma example_last1:
  "last_label example_results1 = Inr 3"
  "last_row example_results1 = Inr \<lparr>theta = 1 / 2, omega = 3 / 4\<rparr>"
  by (simp_all add: last_label_def last_row_def example_results1_def)

lemma example_run:
  "run_two_phases_locals (euler_solver 4) 1 (1 / 2) example_params = Inr example_locals"
  by (simp add: run_two_phases_locals_def Let_def example_phase1 example_last1
        example_phase2 example_combine example_locals_def)

text \<open>
  Every trajectory \<open>euler_solver\<close> returns starts with the initial condition and is
  time-ordered.
\<close>

lemma euler_steps_shape:
  assumes "euler_steps n h f g system t y = Inr (results, details)" and "0 < h"
  shows "results \<noteq> [] \<and> hd results = (t, y) \<and> time_ordered results"
  using assms
proof (induction n arbitrary: t y results details)
  case 0
  then show ?case
    by (auto simp: time_ordered_def)
next
  case (Suc n)
  from Suc.prems(1) obtain dtheta domega where d: "f y t system = Inr (dtheta, domega)"
    by (auto split: sum.splits)
  define y' where "y' = \<lparr>theta = theta y + h * dtheta, omega = omega y + h * domega\<rparr>"
  define g0 where "g0 = g y t system"
  define g1 where "g1 = g y' (t + h) system"
  show ?case
  proof (cases "(g0 < 0 \<and> 0 \<le> g1) \<or> (0 < g0 \<and> g1 \<le> 0)")
    case True
    then have c: "0 < g0 / (g0 - g1)"
      by (auto simp: field_simps zero_less_divide_iff)
    from c \<open>0 < h\<close> have "0 < g0 / (g0 - g1) * h"
      by (rule mult_pos_pos)
    moreover from Suc.prems(1) True
    have "results = [(t, y), (t + g0 / (g0 - g1) * h,
            \<lparr>theta = theta y + g0 / (g0 - g1) * h * dtheta,
             omega = omega y + g0 / (g0 - g1) * h * domega\<rparr>)]"
      by (auto simp: d Let_def y'_def g0_def g1_def)
    ultimately show ?thesis
      by (simp add: time_ordered_def)
  next
    case False
    with Suc.prems(1) obtain rest
      where rest: "euler_steps n h f g system (t + h) y' = Inr (rest, details)"
        and res: "results = (t, y) # rest"
      by (auto simp: d Let_def y'_def g0_def g1_def split: sum.splits)
    from Suc.IH [OF rest \<open>0 < h\<close>]
    have ne: "rest \<noteq> []" and hd: "hd rest = (t + h, y')" and ord: "time_ordered rest"
      by simp_all
    have "\<forall>x \<in> set rest. t < fst x"
    proof
      fix x assume "x \<in> set rest"
      with ord have "fst (hd rest) \<le> fst x"
        by (rule time_ordered_hd_le)
      with hd \<open>0 < h\<close> show "t < fst x"
        by simp
    qed
    with ord show ?thesis
      by (auto simp: res time_ordered_def)
  qed
qed

lemma euler_solver_shape:
  assumes "euler_solver n system f g = Inr (results, details)"
  shows "starts_with_initial_condition system results \<and> time_ordered results"
proof (cases "t_end system \<le> (case t_0 system of None \<Rightarrow> 0 | Some t \<Rightarrow> t)")
  case True
  with assms show ?thesis
    by (auto simp: euler_solver_def Let_def starts_with_initial_condition_def
          time_ordered_def split: if_splits)
next
  case False
  with assms have n: "n \<noteq> 0"
    and run: "euler_steps n ((t_end system - (case t_0 system of None \<Rightarrow> 0 | Some t \<Rightarrow> t)) / real n)
                f g system (case t_0 system of None \<Rightarrow> 0 | Some t \<Rightarrow> t) (init system)
              = Inr (results, details)"
    by (auto simp: euler_solver_def Let_def split: if_splits)
  from False n have "0 < (t_end system - (case t_0 system of None \<Rightarrow> 0 | Some t \<Rightarrow> t)) / real n"
    by simp
  with run show ?thesis
    unfolding starts_with_initial_condition_def by (auto dest: euler_steps_shape)
qed

subsection \<open>The dynamics model and the boundary detectors\<close>

text \<open>
  C4. For every state, time and system record, the phase-1 detector returns
  \<open>theta - theta_end\<close>, with \<open>theta_end\<close> read from the system, and the phase-2
  detector returns \<open>omega\<close>. Both are functions of their three arguments alone: the
  value is the same at any two times, and the phase-2 value is the same for any two systems.
\<close>

theorem event_funcs_value:
  "event_func1 state t system = theta state - theta_end system
   \<and> event_func2 state t system = omega state
   \<and> event_func1 state t system = event_func1 state t' system
   \<and> event_func2 state t system = event_func2 state t' system'"
  by (simp add: event_func1_def event_func2_def)

text \<open>
  C3, as amended. For every state, time and system record whose moment of inertia is
  not zero, \<open>slope_func\<close> returns the pair of \<open>omega\<close> and
  \<open>(radius_disk * force - torque_friction) / I\<close>; for every system record whose
  moment of inertia is zero, the division raises \<open>ZeroDivisionError\<close>; and for every
  system record the result is the same at any two times. It is a function of its
  arguments and has no effect beside its result.
\<close>

theorem slope_func_value:
  "(I system \<noteq> 0 \<longrightarrow>
      slope_func state t system
        = Inr (omega state,
               (radius_disk system * force system - torque_friction system) / I system))
   \<and> (I system = 0 \<longrightarrow> slope_func state t system = Inl ZeroDivisionError)
   \<and> slope_func state t' system = slope_func state t system"
  by (simp add: slope_func_def)

theorem slope_func_value_witness:
  "I (make_system example_params) \<noteq> 0
   \<and> slope_func \<lparr>theta = 1 / 2, omega = 3 / 4\<rparr> 3 (make_system example_params)
       = Inr (3 / 4, 2 / 5)
   \<and> slope_func \<lparr>theta = 1 / 2, omega = 3 / 4\<rparr> 0 (make_system example_params)
       = slope_func \<lparr>theta = 1 / 2, omega = 3 / 4\<rparr> 3 (make_system example_params)"
proof -
  have h: "I (make_system example_params) \<noteq> 0"
    by (simp add: make_system_def example_params_def)
  show ?thesis
    using h slope_func_value
            [where system = "make_system example_params"
               and state = "\<lparr>theta = 1 / 2, omega = 3 / 4\<rparr>" and t = 3 and t' = 0]
    by (simp add: make_system_def example_params_def)
qed

text \<open>
  A turntable and a pot without mass have no moment of inertia: \<open>make_system\<close> builds
  the system, and \<open>slope_func\<close> raises on it instead of returning a pair.
\<close>

theorem slope_func_zero_inertia_counterexample:
  "slope_func \<lparr>theta = 0, omega = 0\<rparr> 0
     (make_system (example_params\<lparr>mass_disk := 0, mass_pot := 0\<rparr>))
   = Inl ZeroDivisionError
   \<and> slope_func \<lparr>theta = 0, omega = 0\<rparr> 0
       (make_system (example_params\<lparr>mass_disk := 0, mass_pot := 0\<rparr>))
     \<noteq> Inr (omega \<lparr>theta = 0, omega = 0\<rparr>,
            (radius_disk (make_system (example_params\<lparr>mass_disk := 0, mass_pot := 0\<rparr>))
               * force (make_system (example_params\<lparr>mass_disk := 0, mass_pot := 0\<rparr>))
             - torque_friction (make_system (example_params\<lparr>mass_disk := 0, mass_pot := 0\<rparr>)))
            / I (make_system (example_params\<lparr>mass_disk := 0, mass_pot := 0\<rparr>)))"
  by (simp add: slope_func_def make_system_def example_params_def)

subsection \<open>The systems of the two phases\<close>

text \<open>
  C7. For every base configuration, \<open>make_system\<close> returns a system whose initial
  state is \<open>theta = 0\<close>, \<open>omega = 0\<close>, and without a start time of its own. In
  every run of \<open>run_two_phases\<close>, the phase-1 system is \<open>make_system\<close> of the
  configuration with the given force and friction torque, so its initial state is that
  zero state, and the phase-1 trajectory is what the integrator returns for this
  system with \<open>slope_func\<close> and \<open>event_func1\<close>.
\<close>

theorem zero_initial_state:
  "init (make_system params) = \<lparr>theta = 0, omega = 0\<rparr>
   \<and> t_0 (make_system params) = None
   \<and> (run_two_phases_locals solver force' torque_friction' params = Inr locals
        \<longrightarrow> loc_system1 locals
              = make_system (params\<lparr>force := force', torque_friction := torque_friction'\<rparr>)
            \<and> init (loc_system1 locals) = \<lparr>theta = 0, omega = 0\<rparr>
            \<and> t_0 (loc_system1 locals) = None
            \<and> solver (loc_system1 locals) slope_func event_func1
                = Inr (loc_results1 locals, loc_details1 locals))"
proof -
  have mk: "init (make_system p) = \<lparr>theta = 0, omega = 0\<rparr>" "t_0 (make_system p) = None" for p
    by (simp_all add: make_system_def)
  have "loc_system1 locals
          = make_system (params\<lparr>force := force', torque_friction := torque_friction'\<rparr>)
        \<and> init (loc_system1 locals) = \<lparr>theta = 0, omega = 0\<rparr>
        \<and> t_0 (loc_system1 locals) = None
        \<and> solver (loc_system1 locals) slope_func event_func1
            = Inr (loc_results1 locals, loc_details1 locals)"
    if run: "run_two_phases_locals solver force' torque_friction' params = Inr locals"
  proof -
    note r = run_two_phases_locals_Inr [OF run]
    show ?thesis
      using r(3) by (simp add: r(1,2) mk)
  qed
  with mk show ?thesis
    by blast
qed

theorem zero_initial_state_witness:
  "init (make_system example_params) = \<lparr>theta = 0, omega = 0\<rparr>
   \<and> run_two_phases_locals (euler_solver 4) 1 (1 / 2) example_params = Inr example_locals
   \<and> init (loc_system1 example_locals) = \<lparr>theta = 0, omega = 0\<rparr>
   \<and> euler_solver 4 (loc_system1 example_locals) slope_func event_func1
       = Inr (example_results1, EventFired)
   \<and> hd example_results1 = (0, \<lparr>theta = 0, omega = 0\<rparr>)"
  using zero_initial_state [of example_params "euler_solver 4" 1 "1 / 2" example_locals]
    example_run
  by (simp add: example_locals_def example_results1_def)

text \<open>
  C5. In every run of \<open>run_two_phases\<close>, the start time of phase 2 is the last label
  of the phase-1 trajectory and its initial state is the last row; the phase-2 system
  is the phase-1 system with these two and with a force of zero, every other field
  unchanged; and the phase-2 trajectory is what the integrator returns for this system
  with \<open>slope_func\<close> and \<open>event_func2\<close>.
\<close>

theorem phase2_system_derived:
  assumes "run_two_phases_locals solver force' torque_friction' params = Inr locals"
  shows "last_label (loc_results1 locals) = Inr (loc_t_0 locals)
         \<and> last_row (loc_results1 locals) = Inr (loc_init2 locals)
         \<and> force (loc_system2 locals) = 0
         \<and> t_0 (loc_system2 locals) = Some (loc_t_0 locals)
         \<and> init (loc_system2 locals) = loc_init2 locals
         \<and> loc_system2 locals
             = (loc_system1 locals)\<lparr>t_0 := Some (loc_t_0 locals), init := loc_init2 locals,
                                   force := 0\<rparr>
         \<and> solver (loc_system2 locals) slope_func event_func2
             = Inr (loc_results2 locals, loc_details2 locals)"
proof -
  note run = run_two_phases_locals_Inr [OF assms]
  have "last_label (loc_results1 locals) = Inr (loc_t_0 locals)"
    using run(4,5) by (simp add: last_label_def)
  moreover have "last_row (loc_results1 locals) = Inr (loc_init2 locals)"
    using run(4,6) by (simp add: last_row_def)
  moreover have "force (loc_system2 locals) = 0"
    and "t_0 (loc_system2 locals) = Some (loc_t_0 locals)"
    and "init (loc_system2 locals) = loc_init2 locals"
    by (simp_all add: run(7))
  ultimately show ?thesis
    using run(7,8) by blast
qed

theorem phase2_system_derived_witness:
  "run_two_phases_locals (euler_solver 4) 1 (1 / 2) example_params = Inr example_locals
   \<and> last_label example_results1 = Inr 3
   \<and> last_row example_results1 = Inr \<lparr>theta = 1 / 2, omega = 3 / 4\<rparr>
   \<and> force (loc_system2 example_locals) = 0
   \<and> t_0 (loc_system2 example_locals) = Some 3
   \<and> init (loc_system2 example_locals) = \<lparr>theta = 1 / 2, omega = 3 / 4\<rparr>"
  using phase2_system_derived [OF example_run] example_run
  by (simp add: example_locals_def)

text \<open>
  C6. Every system record the code constructs stores the moment of inertia of its own
  masses and radii, \<open>mass_disk * radius_disk\<^sup>2 / 2 + mass_pot * radius_pot\<^sup>2\<close>: the
  system \<open>make_system\<close> builds from any configuration, and the phase-1 and phase-2
  systems of every run of \<open>run_two_phases\<close>.
\<close>

theorem inertia_invariant:
  "inertia_consistent (make_system params)
   \<and> (run_two_phases_locals solver force' torque_friction' params = Inr locals
        \<longrightarrow> inertia_consistent (loc_system1 locals)
            \<and> inertia_consistent (loc_system2 locals))"
proof -
  have mk: "inertia_consistent (make_system p)" for p
    by (simp add: inertia_consistent_def make_system_def)
  have "inertia_consistent (loc_system1 locals) \<and> inertia_consistent (loc_system2 locals)"
    if run: "run_two_phases_locals solver force' torque_friction' params = Inr locals"
  proof -
    note r = run_two_phases_locals_Inr [OF run]
    have s1: "inertia_consistent (loc_system1 locals)"
      unfolding r(2) by (rule mk)
    then have "inertia_consistent (loc_system2 locals)"
      by (simp add: r(7) inertia_consistent_def)
    with s1 show ?thesis ..
  qed
  with mk show ?thesis
    by blast
qed

theorem inertia_invariant_witness:
  "inertia_consistent (make_system example_params)
   \<and> run_two_phases_locals (euler_solver 4) 1 (1 / 2) example_params = Inr example_locals
   \<and> inertia_consistent (loc_system1 example_locals)
   \<and> inertia_consistent (loc_system2 example_locals)
   \<and> I (loc_system2 example_locals) = 2"
  using inertia_invariant [of example_params "euler_solver 4" 1 "1 / 2" example_locals]
    example_run
  by (simp add: example_locals_def make_system_def example_params_def)

subsection \<open>The splice\<close>




subsection \<open>A phase 1 that does not reach its target\<close>

lemma run_two_phases_Inr:
  assumes "solver (make_system (params\<lparr>force := force', torque_friction := torque_friction'\<rparr>))
             slope_func event_func1 = Inr (results1, details1)"
    and "results1 \<noteq> []"
    and "solver ((make_system (params\<lparr>force := force', torque_friction := torque_friction'\<rparr>))
                   \<lparr>t_0 := Some (fst (last results1)), init := snd (last results1),
                    force := 0\<rparr>)
             slope_func event_func2 = Inr (results2, details2)"
  shows "run_two_phases solver force' torque_friction' params
           = Inr (combine_first results1 results2)"
  using assms
  by (simp add: run_two_phases_def run_two_phases_locals_def Let_def last_label_def
        last_row_def)

text \<open>
  C2, as amended. \<open>run_two_phases\<close> does not look at the details of phase 1. On every
  input on which the phase-1 integration runs to the horizon without its event
  firing, it takes the last label and row of the phase-1 trajectory, which has at
  least one row, as the start of phase 2 and, when the integrator returns a phase-2
  trajectory, returns the splice of the two: no error is signalled.
\<close>

theorem phase1_incomplete_proceeds:
  assumes "solver (make_system (params\<lparr>force := force', torque_friction := torque_friction'\<rparr>))
             slope_func event_func1 = Inr (results1, HorizonReached)"
    and "results1 \<noteq> []"
    and "solver ((make_system (params\<lparr>force := force', torque_friction := torque_friction'\<rparr>))
                   \<lparr>t_0 := Some (fst (last results1)), init := snd (last results1),
                    force := 0\<rparr>)
             slope_func event_func2 = Inr (results2, details2)"
  shows "run_two_phases solver force' torque_friction' params
           = Inr (combine_first results1 results2)"
  using assms by (rule run_two_phases_Inr)

lemma reversed_phase1:
  "euler_solver 4 (make_system (example_params\<lparr>force := 1, torque_friction := 2\<rparr>))
     slope_func event_func1 = Inr (reversed_results, HorizonReached)"
  by (simp add: euler_solver_def make_system_def example_params_def slope_func_def
        event_func1_def eval_nat_numeral reversed_results_def)

lemma reversed_phase2:
  "euler_solver 4
     ((make_system (example_params\<lparr>force := 1, torque_friction := 2\<rparr>))
        \<lparr>t_0 := Some (fst (last reversed_results)), init := snd (last reversed_results),
         force := 0\<rparr>)
     slope_func event_func2 = Inr ([(8, \<lparr>theta = - 12, omega = - 4\<rparr>)], HorizonReached)"
  by (simp add: euler_solver_def make_system_def example_params_def reversed_results_def)

theorem phase1_incomplete_proceeds_witness:
  "euler_solver 4 (make_system (example_params\<lparr>force := 1, torque_friction := 2\<rparr>))
     slope_func event_func1 = Inr (reversed_results, HorizonReached)
   \<and> reversed_results \<noteq> []
   \<and> euler_solver 4
       ((make_system (example_params\<lparr>force := 1, torque_friction := 2\<rparr>))
          \<lparr>t_0 := Some (fst (last reversed_results)), init := snd (last reversed_results),
           force := 0\<rparr>)
       slope_func event_func2 = Inr ([(8, \<lparr>theta = - 12, omega = - 4\<rparr>)], HorizonReached)
   \<and> run_two_phases (euler_solver 4) 1 2 example_params = Inr reversed_results"
proof -
  have ne: "reversed_results \<noteq> []"
    by (simp add: reversed_results_def)
  have c: "combine_first reversed_results [(8, \<lparr>theta = - 12, omega = - 4\<rparr>)] = reversed_results"
    by (simp add: combine_first_def reversed_results_def)
  show ?thesis
    using phase1_incomplete_proceeds
            [where solver = "euler_solver 4" and params = example_params
               and force' = 1 and torque_friction' = 2,
             OF reversed_phase1 ne reversed_phase2]
      reversed_phase1 ne reversed_phase2
    by (simp add: c)
qed

text \<open>
  With a force of 1 and a friction torque of 1 the net torque on the example table is
  zero: phase 1 ends at the horizon of 8 seconds with the angle still 0, its event
  has not fired, and \<open>run_two_phases\<close> returns that trajectory as its result.
\<close>

theorem phase1_incomplete_counterexample:
  "euler_solver 4 (make_system (example_params\<lparr>force := 1, torque_friction := 1\<rparr>))
     slope_func event_func1 = Inr (stalled_results, HorizonReached)
   \<and> run_two_phases (euler_solver 4) 1 1 example_params = Inr stalled_results"
proof -
  have p1: "euler_solver 4 (make_system (example_params\<lparr>force := 1, torque_friction := 1\<rparr>))
      slope_func event_func1 = Inr (stalled_results, HorizonReached)"
    by (simp add: euler_solver_def make_system_def example_params_def slope_func_def
          event_func1_def eval_nat_numeral stalled_results_def Let_def)
  have ne: "stalled_results \<noteq> []"
    by (simp add: stalled_results_def)
  have p2: "euler_solver 4
      ((make_system (example_params\<lparr>force := 1, torque_friction := 1\<rparr>))
         \<lparr>t_0 := Some (fst (last stalled_results)), init := snd (last stalled_results),
          force := 0\<rparr>)
      slope_func event_func2 = Inr ([(8, \<lparr>theta = 0, omega = 0\<rparr>)], HorizonReached)"
    by (simp add: euler_solver_def make_system_def example_params_def stalled_results_def)
  have c: "combine_first stalled_results [(8, \<lparr>theta = 0, omega = 0\<rparr>)] = stalled_results"
    by (simp add: combine_first_def stalled_results_def)
  show ?thesis
    using run_two_phases_Inr
            [where solver = "euler_solver 4" and params = example_params
               and force' = 1 and torque_friction' = 1, OF p1 ne p2] p1
    by (simp add: c)
qed

subsection \<open>The calibration error\<close>

lemma run_two_phases_not_Nil:
  assumes "run_two_phases solver force' torque_friction' params = Inr results"
  shows "results \<noteq> []"
proof -
  from assms obtain locals
    where run: "run_two_phases_locals solver force' torque_friction' params = Inr locals"
      and res: "results = loc_results locals"
    by (auto simp: run_two_phases_def split: sum.splits)
  note r = run_two_phases_locals_Inr [OF run]
  show ?thesis
    unfolding res r(9) using r(4) by (rule combine_first_not_Nil)
qed

lemma example_run_results:
  "run_two_phases (euler_solver 4) 1 (1 / 2) example_params = Inr example_results"
  by (simp add: run_two_phases_def example_run example_locals_def)

text \<open>
  C8. For every friction guess and base configuration, \<open>error_func1\<close> runs
  \<open>run_two_phases\<close> with a force of 1 and the guessed friction torque, and returns
  the angle in the last row of its result minus 1.5; it prints the guess and that final
  angle. The result of a run always has a last row, so the only failures of
  \<open>error_func1\<close> are those of the run.
\<close>

theorem error_func1_value:
  "error_func1 solver torque_friction' params =
     (case run_two_phases solver 1 torque_friction' params of
        Inl e \<Rightarrow> Inl e
      | Inr results \<Rightarrow>
          Inr \<lparr>printed = (torque_friction', theta (snd (last results))),
               returned = theta (snd (last results)) - 3 / 2\<rparr>)"
proof (cases "run_two_phases solver 1 torque_friction' params")
  case (Inl e)
  then show ?thesis
    by (simp add: error_func1_def)
next
  case (Inr results)
  then have "results \<noteq> []"
    by (rule run_two_phases_not_Nil)
  with Inr show ?thesis
    by (simp add: error_func1_def last_row_def Let_def)
qed

theorem error_func1_value_witness:
  "run_two_phases (euler_solver 4) 1 (1 / 2) example_params = Inr example_results
   \<and> error_func1 (euler_solver 4) (1 / 2) example_params
       = Inr \<lparr>printed = (1 / 2, 131 / 64), returned = 35 / 64\<rparr>"
  using error_func1_value [of "euler_solver 4" "1 / 2" example_params] example_run_results
  by (simp add: example_results_def)

subsection \<open>What the result of a run depends on\<close>









text \<open>
  C10. The fields \<open>force\<close> and \<open>torque_friction\<close> of the base configuration do not
  reach the result: for any two base configurations that agree on every other field,
  \<open>run_two_phases\<close> returns the same result and \<open>error_func1\<close> the same outcome,
  since the driver sets both fields from its arguments before it builds a system.
\<close>

theorem base_force_friction_ignored:
  assumes "radius_disk params = radius_disk params'"
    and "mass_disk params = mass_disk params'"
    and "radius_pot params = radius_pot params'"
    and "mass_pot params = mass_pot params'"
    and "theta_end params = theta_end params'"
    and "t_end params = t_end params'"
  shows "run_two_phases solver force' torque_friction' params
           = run_two_phases solver force' torque_friction' params'
         \<and> error_func1 solver torque_friction' params
             = error_func1 solver torque_friction' params'"
proof -
  have "params\<lparr>force := a, torque_friction := b\<rparr> = params'\<lparr>force := a, torque_friction := b\<rparr>"
    for a b
    using assms by (intro Params.equality) simp_all
  then have "run_two_phases_locals solver a b params = run_two_phases_locals solver a b params'"
    for a b
    by (simp add: run_two_phases_locals_def)
  then have "run_two_phases solver a b params = run_two_phases solver a b params'" for a b
    by (simp add: run_two_phases_def)
  then show ?thesis
    by (simp add: error_func1_def)
qed

theorem base_force_friction_ignored_witness:
  "radius_disk example_params = radius_disk (example_params\<lparr>force := 7, torque_friction := 9\<rparr>)
   \<and> t_end example_params = t_end (example_params\<lparr>force := 7, torque_friction := 9\<rparr>)
   \<and> force example_params \<noteq> force (example_params\<lparr>force := 7, torque_friction := 9\<rparr>)
   \<and> run_two_phases (euler_solver 4) 1 (1 / 2)
         (example_params\<lparr>force := 7, torque_friction := 9\<rparr>)
       = Inr example_results
   \<and> error_func1 (euler_solver 4) (1 / 2) (example_params\<lparr>force := 7, torque_friction := 9\<rparr>)
       = error_func1 (euler_solver 4) (1 / 2) example_params"
  using base_force_friction_ignored
          [of example_params "example_params\<lparr>force := 7, torque_friction := 9\<rparr>"
              "euler_solver 4" 1 "1 / 2"]
        example_run_results
  by (simp add: example_params_def)

end
